theory Spec2Isabelle
  imports Main "HOL-Library.Char_ord" "HOL-Library.List_Lexorder"
begin

section \<open>The streaming client of \<^verbatim>\<open>src/api/chat.ts\<close>\<close>

subsection \<open>Text helpers\<close>

text \<open>
  A JavaScript string is modelled as a \<^typ>\<open>string\<close>, one \<^typ>\<open>char\<close> for each code unit.
  \<^verbatim>\<open>chunk.split('\n')\<close> cuts a text at every line feed and keeps the empty pieces, so the
  empty text gives one empty line and a text ending in a line feed gives a last, empty line.
  The result is never empty (\<open>js_split_not_Nil\<close> below), so the first branch of the
  \<^theory_text>\<open>case\<close> is never taken.
\<close>

definition newline :: char where
  "newline = CHR 0x0A"

fun js_split :: "'a \<Rightarrow> 'a list \<Rightarrow> 'a list list" where
  "js_split sep [] = [[]]"
| "js_split sep (c # cs) =
     (if c = sep then [] # js_split sep cs
      else (case js_split sep cs of
              [] \<Rightarrow> [[c]]
            | line # lines \<Rightarrow> (c # line) # lines))"

text \<open>\<^verbatim>\<open>line.startsWith(p)\<close> and \<^verbatim>\<open>line.slice(n)\<close> for \<open>n\<close> not negative.\<close>

definition startsWith :: "string \<Rightarrow> string \<Rightarrow> bool" where
  "startsWith line p = (take (length p) line = p)"

definition slice :: "string \<Rightarrow> nat \<Rightarrow> string" where
  "slice line n = drop n line"

subsection \<open>Parsed JSON values and the callbacks\<close>

text \<open>
  \<^verbatim>\<open>JSON.parse\<close> is a built-in of the language and not code of the repository: it is a
  parameter \<open>parse\<close> of the model, \<open>None\<close> standing for the \<^verbatim>\<open>SyntaxError\<close> it throws. The
  values it returns are the JSON values; the code never looks into a number, so the type of
  numbers is left open as \<open>'n\<close>.
\<close>

datatype 'n json =
    JNull
  | JBool bool
  | JNum 'n
  | JStr string
  | JArr "'n json list"
  | JObj "(string \<times> 'n json) list"

text \<open>
  Reading a property of a parsed value, for the six names the client reads (\<^verbatim>\<open>type\<close>,
  \<^verbatim>\<open>message\<close>, \<^verbatim>\<open>messageId\<close>, \<^verbatim>\<open>timestamp\<close>, \<^verbatim>\<open>content\<close>, \<^verbatim>\<open>error\<close>): an object gives
  the member of that name (the last one, when the text repeated the name) or \<^verbatim>\<open>undefined\<close>,
  here \<open>None\<close>; a boolean, number, string or array has no such property. Reading a property
  of \<^verbatim>\<open>null\<close> throws a \<^verbatim>\<open>TypeError\<close>, which \<open>dispatch\<close> handles before it reads.
\<close>

fun get_prop :: "'n json \<Rightarrow> string \<Rightarrow> 'n json option" where
  "get_prop (JObj kvs) k = map_of (rev kvs) k"
| "get_prop _ k = None"

text \<open>
  The five callbacks are optional parameters (each is called as \<^verbatim>\<open>onEnd?.(...)\<close>); the
  record says which of them the caller supplied. What \<^verbatim>\<open>sendMessageStream\<close> does to its caller is the sequence of calls it makes,
  each with the arguments it passes.
\<close>

record callbacks =
  has_onUserMessage :: bool
  has_onAssistantMessageStart :: bool
  has_onContent :: bool
  has_onEnd :: bool
  has_onError :: bool

datatype 'n call =
    CallUserMessage "'n json option"
  | CallAssistantMessageStart "'n json option" "'n json option"
  | CallContent "'n json option" "'n json option"
  | CallEnd "'n json option"
  | CallError "'n json option"

text \<open>
  The \<^verbatim>\<open>switch (data.type)\<close> of lines 143 to 159. The switch compares with \<^verbatim>\<open>===\<close>, so a case
  is taken only when the property is that very string; there is no \<^verbatim>\<open>default\<close> case. The
  switch sits inside the \<^verbatim>\<open>try\<close> whose \<^verbatim>\<open>catch\<close> only logs: the \<^verbatim>\<open>TypeError\<close> of
  \<^verbatim>\<open>null.type\<close> ends the frame with no call, and an exception thrown by a callback is caught
  after the call was made, so it changes neither the calls nor the loop.
\<close>

definition dispatch :: "callbacks \<Rightarrow> 'n json \<Rightarrow> 'n call list" where
  "dispatch cbs data =
     (if data = JNull then []
      else if get_prop data ''type'' = Some (JStr ''user_message'') then
        (if has_onUserMessage cbs then [CallUserMessage (get_prop data ''message'')] else [])
      else if get_prop data ''type'' = Some (JStr ''assistant_message_start'') then
        (if has_onAssistantMessageStart cbs
         then [CallAssistantMessageStart (get_prop data ''messageId'') (get_prop data ''timestamp'')]
         else [])
      else if get_prop data ''type'' = Some (JStr ''content'') then
        (if has_onContent cbs then [CallContent (get_prop data ''content'') (get_prop data ''messageId'')]
         else [])
      else if get_prop data ''type'' = Some (JStr ''end'') then
        (if has_onEnd cbs then [CallEnd (get_prop data ''messageId'')] else [])
      else if get_prop data ''type'' = Some (JStr ''error'') then
        (if has_onError cbs then [CallError (get_prop data ''error'')] else [])
      else [])"

subsection \<open>The frame-decoding loop\<close>

text \<open>
  The \<^verbatim>\<open>try\<close> block of lines 140 to 162 on one payload: a payload that does not parse is
  logged by the \<^verbatim>\<open>catch\<close> and makes no call.
\<close>

definition process_payload :: "(string \<Rightarrow> 'n json option) \<Rightarrow> callbacks \<Rightarrow> string \<Rightarrow> 'n call list" where
  "process_payload parse cbs payload =
     (case parse payload of
        None \<Rightarrow> []
      | Some data \<Rightarrow> dispatch cbs data)"

text \<open>The body of \<^verbatim>\<open>for (const line of lines)\<close>, lines 139 to 163.\<close>

definition process_line :: "(string \<Rightarrow> 'n json option) \<Rightarrow> callbacks \<Rightarrow> string \<Rightarrow> 'n call list" where
  "process_line parse cbs line =
     (if startsWith line ''data: '' then process_payload parse cbs (slice line 6) else [])"

text \<open>
  One turn of the \<^verbatim>\<open>while\<close> loop after a successful read, lines 135 to 164. The chunk is the
  text \<^verbatim>\<open>decoder.decode(value)\<close> returned for that read; nothing of a chunk is kept for
  the next turn.
\<close>

definition process_chunk :: "(string \<Rightarrow> 'n json option) \<Rightarrow> callbacks \<Rightarrow> string \<Rightarrow> 'n call list" where
  "process_chunk parse cbs chunk = concat (map (process_line parse cbs) (js_split newline chunk))"

text \<open>
  The payload strings the loop extracts from one chunk (\<^verbatim>\<open>line.slice(6)\<close> of every line
  that starts with \<^verbatim>\<open>data: \<close>), and from the chunks of a stream, in order.
\<close>

definition chunk_payloads :: "string \<Rightarrow> string list" where
  "chunk_payloads chunk =
     map (\<lambda>line. slice line 6) (filter (\<lambda>line. startsWith line ''data: '') (js_split newline chunk))"

definition stream_payloads :: "string list \<Rightarrow> string list" where
  "stream_payloads chunks = concat (map chunk_payloads chunks)"

datatype js_error = Error string

text \<open>
  What \<^verbatim>\<open>reader.read()\<close> gives, read after read: a chunk, or a rejection (the connection
  broke). The end of the list is the read with \<^verbatim>\<open>done: true\<close>. A rejection leaves the loop
  through the \<^verbatim>\<open>finally\<close> and rejects the promise; the calls made before it stay made.
\<close>

datatype read = Chunk string | Rejected js_error

fun read_loop ::
  "(string \<Rightarrow> 'n json option) \<Rightarrow> callbacks \<Rightarrow> read list \<Rightarrow> 'n call list \<times> (js_error + unit)" where
  "read_loop parse cbs [] = ([], Inr ())"
| "read_loop parse cbs (Rejected e # rest) = ([], Inl e)"
| "read_loop parse cbs (Chunk chunk # rest) =
     (case read_loop parse cbs rest of
        (calls, res) \<Rightarrow> (process_chunk parse cbs chunk @ calls, res))"

record response =
  ok :: bool
  statusText :: string
  body :: "read list option"

text \<open>
  \<^verbatim>\<open>sendMessageStream\<close>, lines 97 to 169. \<open>token\<close> is the identity token of the signed-in
  user (\<open>None\<close>: nobody is signed in and \<^verbatim>\<open>getAuthHeaders\<close> throws), \<open>fetched\<close> is what
  \<^verbatim>\<open>fetch\<close> settles to for the request that carries the conversation id and the message.
  The result is the calls made and how the promise settles.
\<close>

definition sendMessageStream ::
  "(string \<Rightarrow> 'n json option) \<Rightarrow> callbacks \<Rightarrow> string option \<Rightarrow> js_error + response
     \<Rightarrow> 'n call list \<times> (js_error + unit)" where
  "sendMessageStream parse cbs token fetched =
     (case token of
        None \<Rightarrow> ([], Inl (Error ''User not authenticated''))
      | Some t \<Rightarrow>
          (case fetched of
             Inl e \<Rightarrow> ([], Inl e)
           | Inr response \<Rightarrow>
               if \<not> ok response then
                 ([], Inl (Error (''Failed to send streaming message: '' @ statusText response)))
               else
                 (case body response of
                    None \<Rightarrow> ([], Inl (Error ''Failed to get response reader''))
                  | Some reads \<Rightarrow> read_loop parse cbs reads)))"

subsection \<open>Payloads for the examples\<close>

text \<open>
  What \<^verbatim>\<open>JSON.parse\<close> gives on the payloads that the concrete examples below use; every
  other text is taken as malformed, as \<^verbatim>\<open>{not json}\<close> is.
\<close>

definition example_parse :: "string \<Rightarrow> unit json option" where
  \<open>example_parse payload =
     (if payload = ''{"type":"content","content":"Hel","messageId":"a1"}'' then
        Some (JObj [(''type'', JStr ''content''), (''content'', JStr ''Hel''),
                    (''messageId'', JStr ''a1'')])
      else if payload = ''{"type":"end","messageId":"a1"}'' then
        Some (JObj [(''type'', JStr ''end''), (''messageId'', JStr ''a1'')])
      else if payload = ''{"type":"ping"}'' then
        Some (JObj [(''type'', JStr ''ping'')])
      else if payload = ''null'' then Some JNull
      else None)\<close>

definition all_callbacks :: callbacks where
  "all_callbacks =
     \<lparr>has_onUserMessage = True, has_onAssistantMessageStart = True, has_onContent = True,
      has_onEnd = True, has_onError = True\<rparr>"

section \<open>The conversation cache of \<^verbatim>\<open>src/contexts/ChatContext.tsx\<close>\<close>

subsection \<open>Data\<close>

text \<open>
  \<^verbatim>\<open>Message\<close> and \<^verbatim>\<open>Conversation\<close> of \<^verbatim>\<open>src/api/chat.ts\<close>, \<^verbatim>\<open>ChatState\<close> of the context.
  The field \<^verbatim>\<open>id\<close> of a message is \<open>msg_id\<close>, that of a conversation \<open>conv_id\<close>, and the
  \<^verbatim>\<open>isStreaming\<close> of the state is \<open>state_isStreaming\<close>. An optional field or a nullable
  one is an \<^typ>\<open>'a option\<close>.
\<close>

datatype role = User | Assistant

record message =
  msg_id :: string
  role :: role
  content :: string
  timestamp :: string
  isStreaming :: "bool option"

record conversation =
  conv_id :: string
  title :: string
  messages :: "message list"
  createdAt :: string
  updatedAt :: string
  userId :: string

record ChatState =
  currentConversationId :: "string option"
  state_isStreaming :: bool
  streamingMessageId :: "string option"
  error :: "string option"

text \<open>
  The query client holds the list of conversations under the key \<^verbatim>\<open>['conversations']\<close> and
  one message list for each conversation under \<^verbatim>\<open>['conversations', id, 'messages']\<close>; either
  can be absent (\<^verbatim>\<open>undefined\<close>).
\<close>

record QueryClient =
  conversations_query :: "conversation list option"
  messages_query :: "string \<Rightarrow> message list option"

text \<open>
  \<^verbatim>\<open>queryClient.setQueryData(key, (old = []) => f(old))\<close>, a function of the query library:
  the cached value is replaced by what the updater returns, and the updater's default
  parameter makes an absent value the empty list. \<^verbatim>\<open>removeQueries\<close> drops the entry.
\<close>

definition setConversations ::
  "(conversation list \<Rightarrow> conversation list) \<Rightarrow> QueryClient \<Rightarrow> QueryClient" where
  "setConversations updater qc =
     qc\<lparr>conversations_query :=
          Some (updater (case conversations_query qc of None \<Rightarrow> [] | Some old \<Rightarrow> old))\<rparr>"

definition setMessages ::
  "string \<Rightarrow> (message list \<Rightarrow> message list) \<Rightarrow> QueryClient \<Rightarrow> QueryClient" where
  "setMessages conversationId updater qc =
     qc\<lparr>messages_query := (messages_query qc)
          (conversationId :=
             Some (updater (case messages_query qc conversationId of
                              None \<Rightarrow> [] | Some old \<Rightarrow> old)))\<rparr>"

definition removeMessages :: "string \<Rightarrow> QueryClient \<Rightarrow> QueryClient" where
  "removeMessages conversationId qc =
     qc\<lparr>messages_query := (messages_query qc)(conversationId := None)\<rparr>"

text \<open>
  What the component reads: \<^verbatim>\<open>data: conversations = []\<close> and \<^verbatim>\<open>data: currentMessages = []\<close>.
\<close>

definition conversations_of :: "QueryClient \<Rightarrow> conversation list" where
  "conversations_of qc = (case conversations_query qc of None \<Rightarrow> [] | Some convs \<Rightarrow> convs)"

definition messages_of :: "QueryClient \<Rightarrow> string \<Rightarrow> message list" where
  "messages_of qc conversationId =
     (case messages_query qc conversationId of None \<Rightarrow> [] | Some msgs \<Rightarrow> msgs)"

text \<open>The provider: its React state and the query client it mutates.\<close>

record provider =
  state :: ChatState
  queryClient :: QueryClient

subsection \<open>Cache operations\<close>

text \<open>
  \<^verbatim>\<open>addMessageToCache\<close>, lines 196 to 209. \<open>now\<close> is what \<^verbatim>\<open>new Date().toISOString()\<close>
  returns during the call.
\<close>

definition addMessageToCache :: "string \<Rightarrow> message \<Rightarrow> string \<Rightarrow> QueryClient \<Rightarrow> QueryClient" where
  "addMessageToCache conversationId msg now qc =
     setConversations
       (map (\<lambda>conv. if conv_id conv = conversationId then conv\<lparr>updatedAt := now\<rparr> else conv))
       (setMessages conversationId (\<lambda>old. old @ [msg]) qc)"

text \<open>
  The updater of \<^verbatim>\<open>updateMessageInCache\<close>, lines 213 to 217, and the function itself; the
  parameter \<^verbatim>\<open>append\<close> is \<open>appending\<close>, and its \<^verbatim>\<open>content\<close> is \<open>fragment\<close>.
\<close>

definition patchMessages :: "string \<Rightarrow> string \<Rightarrow> bool \<Rightarrow> message list \<Rightarrow> message list" where
  "patchMessages messageId fragment appending old =
     map (\<lambda>msg. if msg_id msg = messageId
                then msg\<lparr>content := (if appending then content msg @ fragment else fragment)\<rparr>
                else msg) old"

definition updateMessageInCache ::
  "string \<Rightarrow> string \<Rightarrow> string \<Rightarrow> bool \<Rightarrow> QueryClient \<Rightarrow> QueryClient" where
  "updateMessageInCache conversationId messageId fragment appending qc =
     setMessages conversationId (patchMessages messageId fragment appending) qc"

subsection \<open>The callbacks \<^verbatim>\<open>sendMessage\<close> passes to the streaming client\<close>

text \<open>
  The callbacks close over the local \<^verbatim>\<open>currentConversationId\<close> of \<^verbatim>\<open>sendMessage\<close> (the
  conversation the message goes to, here \<open>conversationId\<close>), the \<open>message\<close> text, and the
  \<open>conversations\<close> and \<open>currentMessages\<close> of the render
  in which \<^verbatim>\<open>sendMessage\<close> was created; these are parameters here. The arguments have the
  types the signatures declare.
\<close>

definition sendMessage_onUserMessage :: "string \<Rightarrow> message \<Rightarrow> string \<Rightarrow> provider \<Rightarrow> provider" where
  "sendMessage_onUserMessage conversationId userMessage now p =
     p\<lparr>queryClient := addMessageToCache conversationId userMessage now (queryClient p)\<rparr>"

definition sendMessage_onAssistantMessageStart ::
  "string \<Rightarrow> string \<Rightarrow> string \<Rightarrow> string \<Rightarrow> provider \<Rightarrow> provider" where
  "sendMessage_onAssistantMessageStart conversationId messageId ts now p =
     (let assistantMessage =
            \<lparr>msg_id = messageId, role = Assistant, content = [], timestamp = ts,
             isStreaming = Some True\<rparr>
      in p\<lparr>queryClient :=
              addMessageToCache conversationId assistantMessage now (queryClient p),
           state := (state p)\<lparr>state_isStreaming := True, streamingMessageId := Some messageId\<rparr>\<rparr>)"

definition sendMessage_onContent :: "string \<Rightarrow> string \<Rightarrow> string \<Rightarrow> provider \<Rightarrow> provider" where
  "sendMessage_onContent conversationId fragment messageId p =
     p\<lparr>queryClient :=
         updateMessageInCache conversationId messageId fragment True (queryClient p)\<rparr>"

text \<open>The updater of lines 275 to 281, which marks a message as no longer streaming.\<close>

definition finalizeMessages :: "string \<Rightarrow> message list \<Rightarrow> message list" where
  "finalizeMessages messageId old =
     map (\<lambda>msg. if msg_id msg = messageId then msg\<lparr>isStreaming := Some False\<rparr> else msg) old"

text \<open>The title of line 286: \<^verbatim>\<open>substring(0, 50)\<close> is the first 50 code units.\<close>

definition autoTitle :: "string \<Rightarrow> string" where
  "autoTitle message = (if length message > 50 then take 50 message @ ''...'' else message)"

definition sendMessage_onEnd ::
  "string \<Rightarrow> string \<Rightarrow> conversation list \<Rightarrow> message list \<Rightarrow> string \<Rightarrow> provider \<Rightarrow> provider" where
  "sendMessage_onEnd conversationId message conversations currentMessages messageId p =
     (let p1 = p\<lparr>state := (state p)\<lparr>state_isStreaming := False, streamingMessageId := None\<rparr>\<rparr>;
          p2 = p1\<lparr>queryClient :=
                    setMessages conversationId (finalizeMessages messageId)
                      (queryClient p1)\<rparr>;
          currentConversation = find (\<lambda>conv. conv_id conv = conversationId) conversations
      in if currentConversation \<noteq> None \<and> length currentMessages \<le> 1 then
           p2\<lparr>queryClient :=
                setConversations
                  (map (\<lambda>conv. if conv_id conv = conversationId
                               then conv\<lparr>title := autoTitle message\<rparr> else conv))
                  (queryClient p2)\<rparr>
         else p2)"

definition sendMessage_onError :: "string \<Rightarrow> provider \<Rightarrow> provider" where
  "sendMessage_onError err p =
     p\<lparr>state := (state p)\<lparr>error := Some ''Failed to send message. Please try again.'',
                          state_isStreaming := False, streamingMessageId := None\<rparr>\<rparr>"

subsection \<open>Creating a conversation and sending a message\<close>

text \<open>
  The \<^verbatim>\<open>onSuccess\<close> of \<^verbatim>\<open>useCreateConversation\<close>, lines 86 to 94: the new conversation goes to
  the head of the cached list and gets an empty message list.
\<close>

definition useCreateConversation_onSuccess :: "conversation \<Rightarrow> QueryClient \<Rightarrow> QueryClient" where
  "useCreateConversation_onSuccess newConversation qc =
     setMessages (conv_id newConversation) (\<lambda>old. [])
       (setConversations (\<lambda>old. newConversation # old) qc)"

text \<open>
  \<^verbatim>\<open>createNewConversation\<close>, lines 186 to 194. \<open>created\<close> is how the request of the mutation
  settles. The result is the id returned, or the error thrown, and the provider after it.
\<close>

definition createNewConversation ::
  "bool \<Rightarrow> js_error + conversation \<Rightarrow> provider \<Rightarrow> (js_error + string) \<times> provider" where
  "createNewConversation user created p =
     (if \<not> user then
        (Inl (Error ''User must be authenticated to create conversations''), p)
      else
        (case created of
           Inl e \<Rightarrow> (Inl e, p)
         | Inr result \<Rightarrow>
             (Inr (conv_id result),
              p\<lparr>queryClient := useCreateConversation_onSuccess result (queryClient p),
                state := (state p)\<lparr>currentConversationId := Some (conv_id result)\<rparr>\<rparr>)))"

text \<open>
  What the streaming client calls during one exchange, with the arguments typed as the
  signatures of the callbacks declare, each call paired with the clock reading at that
  moment.
\<close>

datatype stream_call =
    UserMessage message
  | AssistantMessageStart string string
  | Content string string
  | End string
  | StreamError string

fun sendMessage_callback ::
  "string \<Rightarrow> string \<Rightarrow> conversation list \<Rightarrow> message list \<Rightarrow> stream_call \<times> string
     \<Rightarrow> provider \<Rightarrow> provider" where
  "sendMessage_callback conversationId message conversations currentMessages
     (UserMessage userMessage, now) p =
     sendMessage_onUserMessage conversationId userMessage now p"
| "sendMessage_callback conversationId message conversations currentMessages
     (AssistantMessageStart messageId ts, now) p =
     sendMessage_onAssistantMessageStart conversationId messageId ts now p"
| "sendMessage_callback conversationId message conversations currentMessages
     (Content fragment messageId, now) p =
     sendMessage_onContent conversationId fragment messageId p"
| "sendMessage_callback conversationId message conversations currentMessages
     (End messageId, now) p =
     sendMessage_onEnd conversationId message conversations currentMessages messageId p"
| "sendMessage_callback conversationId message conversations currentMessages
     (StreamError err, now) p =
     sendMessage_onError err p"

text \<open>A value that JavaScript takes as true: a string that is present and not empty.\<close>

definition truthy :: "string option \<Rightarrow> bool" where
  "truthy v = (case v of None \<Rightarrow> False | Some s \<Rightarrow> s \<noteq> [])"

text \<open>
  \<^verbatim>\<open>sendMessage\<close>, lines 221 to 318. \<open>user\<close> says whether somebody is signed in;
  \<open>conversations\<close> and \<open>currentMessages\<close> are the values of the render in which the
  function was created (\<^verbatim>\<open>useCallback\<close> with the dependencies of line 318), as is the
  state that line 231 reads; \<open>created\<close> is how the request for a new conversation settles,
  should one be made; \<open>calls\<close> are the calls the streaming client makes, in order, and
  \<open>settled\<close> is how its promise settles. The three steps are: the conversation the
  message goes to (lines 231 to 234, a new one when neither the argument nor the state
  names one), the exchange (lines 237 to 307), and the \<^verbatim>\<open>catch\<close> (lines 309 to 317).
\<close>

definition sendMessage_failed :: "provider \<Rightarrow> provider" where
  "sendMessage_failed p =
     p\<lparr>state := (state p)\<lparr>error := Some ''Failed to send message. Please try again.'',
                          state_isStreaming := False, streamingMessageId := None\<rparr>\<rparr>"

definition sendMessage_stream ::
  "string \<Rightarrow> string \<Rightarrow> conversation list \<Rightarrow> message list \<Rightarrow> (stream_call \<times> string) list
     \<Rightarrow> js_error + unit \<Rightarrow> provider \<Rightarrow> provider" where
  "sendMessage_stream conversationId message conversations currentMessages calls settled p =
     (let p' = foldl (\<lambda>q c. sendMessage_callback conversationId message conversations
                               currentMessages c q) p calls
      in case settled of Inl e \<Rightarrow> sendMessage_failed p' | Inr u \<Rightarrow> p')"

definition sendMessage ::
  "bool \<Rightarrow> string \<Rightarrow> string option \<Rightarrow> conversation list \<Rightarrow> message list
     \<Rightarrow> js_error + conversation \<Rightarrow> (stream_call \<times> string) list \<Rightarrow> js_error + unit
     \<Rightarrow> provider \<Rightarrow> provider" where
  "sendMessage user message conversationId conversations currentMessages created calls settled p =
     (if \<not> user then
        p\<lparr>state := (state p)\<lparr>error := Some ''You must be logged in to send messages''\<rparr>\<rparr>
      else
        (let p0 = p\<lparr>state := (state p)\<lparr>error := None\<rparr>\<rparr>;
             in_new_conversation =
               (case createNewConversation user created p0 of
                  (Inl e, p1) \<Rightarrow> sendMessage_failed p1
                | (Inr newId, p1) \<Rightarrow>
                    sendMessage_stream newId message conversations currentMessages calls
                      settled p1)
         in case (if truthy conversationId then conversationId
                  else currentConversationId (state p)) of
              None \<Rightarrow> in_new_conversation
            | Some chosen \<Rightarrow>
                if chosen = [] then in_new_conversation
                else sendMessage_stream chosen message conversations currentMessages calls
                       settled p0))"

text \<open>
  What a render reads from the provider: the cached conversations, and the cached messages
  of the selected conversation (\<^verbatim>\<open>useConversationMessages\<close> is disabled and gives no data
  when no conversation is selected).
\<close>

definition rendered_conversations :: "provider \<Rightarrow> conversation list" where
  "rendered_conversations p = conversations_of (queryClient p)"

definition rendered_currentMessages :: "provider \<Rightarrow> message list" where
  "rendered_currentMessages p =
     (case currentConversationId (state p) of
        None \<Rightarrow> []
      | Some selected \<Rightarrow> messages_of (queryClient p) selected)"

subsection \<open>Deleting a conversation\<close>

text \<open>The \<^verbatim>\<open>onSuccess\<close> of \<^verbatim>\<open>useDeleteConversation\<close>, lines 103 to 111.\<close>

definition useDeleteConversation_onSuccess :: "string \<Rightarrow> QueryClient \<Rightarrow> QueryClient" where
  "useDeleteConversation_onSuccess conversationId qc =
     removeMessages conversationId
       (setConversations (filter (\<lambda>conv. conv_id conv \<noteq> conversationId)) qc)"

text \<open>
  \<^verbatim>\<open>deleteConversation\<close>, lines 329 to 345. \<open>deleted\<close> is how the request of the mutation
  settles; \<open>conversations\<close> is the list of the render in which the function was created,
  as is the state the comparison of line 334 reads.
\<close>

definition deleteConversation ::
  "string \<Rightarrow> js_error + unit \<Rightarrow> conversation list \<Rightarrow> provider \<Rightarrow> provider" where
  "deleteConversation conversationId deleted conversations p =
     (case deleted of
        Inl e \<Rightarrow> p\<lparr>state := (state p)\<lparr>error := Some ''Failed to delete conversation''\<rparr>\<rparr>
      | Inr u \<Rightarrow>
          (let p1 = p\<lparr>queryClient := useDeleteConversation_onSuccess conversationId (queryClient p)\<rparr>
           in if currentConversationId (state p) = Some conversationId then
                (let remainingConversations =
                       filter (\<lambda>conv. conv_id conv \<noteq> conversationId) conversations
                 in p1\<lparr>state := (state p1)
                         \<lparr>currentConversationId :=
                            (if length remainingConversations > 0
                             then Some (conv_id (remainingConversations ! 0)) else None)\<rparr>\<rparr>)
              else p1))"

subsection \<open>A cache for the examples\<close>

text \<open>
  Three conversations, the first of them selected, with one user message in its list.
\<close>

definition example_conversation :: "string \<Rightarrow> string \<Rightarrow> conversation" where
  "example_conversation cid t =
     \<lparr>conv_id = cid, title = t, messages = [], createdAt = ''2025-06-01T10:00:00.000Z'',
      updatedAt = ''2025-06-01T12:00:00.000Z'', userId = ''user1''\<rparr>"

definition example_message :: message where
  "example_message =
     \<lparr>msg_id = ''u1'', role = User, content = ''Hi'', timestamp = ''2025-06-01T12:00:00.000Z'',
      isStreaming = None\<rparr>"

definition example_client :: QueryClient where
  "example_client =
     \<lparr>conversations_query =
        Some [example_conversation ''c1'' ''New Chat'', example_conversation ''c2'' ''Second'',
              example_conversation ''c3'' ''Third''],
      messages_query = (\<lambda>cid. if cid = ''c1'' then Some [example_message] else None)\<rparr>"

definition example_provider :: provider where
  "example_provider =
     \<lparr>state = \<lparr>currentConversationId = Some ''c1'', state_isStreaming = False,
               streamingMessageId = None, error = None\<rparr>,
      queryClient = example_client\<rparr>"

text \<open>
  A signed-in user with no conversation yet, and the five calls of one streamed reply.
\<close>

definition empty_provider :: provider where
  "empty_provider =
     \<lparr>state = \<lparr>currentConversationId = None, state_isStreaming = False,
               streamingMessageId = None, error = None\<rparr>,
      queryClient = \<lparr>conversations_query = Some [], messages_query = (\<lambda>cid. None)\<rparr>\<rparr>"

definition example_calls :: "(stream_call \<times> string) list" where
  "example_calls =
     [(UserMessage \<lparr>msg_id = ''u1'', role = User, content = ''Hi'',
                     timestamp = ''2025-06-01T12:05:00.000Z'', isStreaming = None\<rparr>,
       ''2025-06-01T12:05:01.000Z''),
      (AssistantMessageStart ''a1'' ''2025-06-01T12:05:01.000Z'', ''2025-06-01T12:05:02.000Z''),
      (Content ''Hel'' ''a1'', ''2025-06-01T12:05:03.000Z''),
      (Content ''lo'' ''a1'', ''2025-06-01T12:05:04.000Z''),
      (End ''a1'', ''2025-06-01T12:05:05.000Z'')]"

text \<open>
  The first conversation selected with its one message, and three earlier messages cached
  for the second conversation.
\<close>

definition busy_provider :: provider where
  "busy_provider =
     example_provider\<lparr>queryClient := example_client
       \<lparr>messages_query :=
          (\<lambda>cid. if cid = ''c1'' then Some [example_message]
                 else if cid = ''c2'' then
                   Some [example_message\<lparr>msg_id := ''m1''\<rparr>,
                         example_message\<lparr>msg_id := ''m2'', role := Assistant\<rparr>,
                         example_message\<lparr>msg_id := ''m3''\<rparr>]
                 else None)\<rparr>\<rparr>"

section \<open>Properties of the frame-decoding loop\<close>

lemma js_split_not_Nil: "js_split sep xs \<noteq> []"
  by (induction xs) (auto split: list.splits)

lemma js_split_append_sep: "js_split sep (xs @ sep # ys) = js_split sep xs @ js_split sep ys"
  by (induction xs) (auto simp: js_split_not_Nil split: list.splits)

lemma chunk_payloads_append_newline:
  "chunk_payloads (xs @ newline # ys) = chunk_payloads xs @ chunk_payloads ys"
  by (simp add: chunk_payloads_def js_split_append_sep)

lemma chunk_payloads_Nil: "chunk_payloads [] = []"
  by (simp add: chunk_payloads_def startsWith_def)

lemma process_chunk_payloads:
  "process_chunk parse cbs chunk = concat (map (process_payload parse cbs) (chunk_payloads chunk))"
proof -
  have "concat (map (process_line parse cbs) ls) =
        concat (map (process_payload parse cbs)
          (map (\<lambda>line. slice line 6) (filter (\<lambda>line. startsWith line ''data: '') ls)))" for ls
    by (induction ls) (simp_all add: process_line_def)
  then show ?thesis by (simp add: process_chunk_def chunk_payloads_def)
qed

lemma read_loop_payloads:
  "read_loop parse cbs (map Chunk chunks) =
     (concat (map (process_payload parse cbs) (stream_payloads chunks)), Inr ())"
  by (induction chunks) (simp_all add: stream_payloads_def process_chunk_payloads)

lemma read_loop_lines:
  "read_loop parse cbs (map Chunk chunks) =
     (concat (map (process_line parse cbs) (concat (map (js_split newline) chunks))), Inr ())"
  by (induction chunks) (simp_all add: process_chunk_def)

lemma chunk_payloads_ended:
  assumes "c = [] \<or> last c = newline"
  shows "chunk_payloads (c @ rest) = chunk_payloads c @ chunk_payloads rest"
proof (cases "c = []")
  case True
  then show ?thesis by (simp add: chunk_payloads_Nil)
next
  case False
  with assms have c: "c = butlast c @ [newline]"
    by (metis append_butlast_last_id)
  have "chunk_payloads (c @ rest) = chunk_payloads (butlast c @ newline # rest)"
    by (subst c) simp
  also have "\<dots> = chunk_payloads (butlast c) @ chunk_payloads rest"
    by (rule chunk_payloads_append_newline)
  also have "chunk_payloads (butlast c) = chunk_payloads c"
  proof -
    have "chunk_payloads c = chunk_payloads (butlast c @ newline # [])"
      using c by simp
    also have "\<dots> = chunk_payloads (butlast c) @ chunk_payloads []"
      by (rule chunk_payloads_append_newline)
    finally show ?thesis by (simp add: chunk_payloads_Nil)
  qed
  finally show ?thesis .
qed

lemma stream_payloads_aligned:
  assumes "\<forall>c \<in> set (butlast chunks). c = [] \<or> last c = newline"
  shows "stream_payloads chunks = chunk_payloads (concat chunks)"
  using assms
proof (induction chunks)
  case Nil
  show ?case by (simp add: stream_payloads_def chunk_payloads_Nil)
next
  case (Cons c cs)
  show ?case
  proof (cases "cs = []")
    case True
    then show ?thesis by (simp add: stream_payloads_def)
  next
    case False
    with Cons.prems have c: "c = [] \<or> last c = newline"
      and rest: "\<forall>c \<in> set (butlast cs). c = [] \<or> last c = newline"
      by auto
    have "stream_payloads (c # cs) = chunk_payloads c @ stream_payloads cs"
      by (simp add: stream_payloads_def)
    also have "\<dots> = chunk_payloads c @ chunk_payloads (concat cs)"
      using Cons.IH [OF rest] by simp
    also have "\<dots> = chunk_payloads (c @ concat cs)"
      using chunk_payloads_ended [OF c] by simp
    finally show ?thesis by simp
  qed
qed

text \<open>
  Claim C1, as the code has it. The loop keeps nothing of a chunk for the next read, so the
  payloads do not depend on the chunking only when no line straddles two chunks: if every
  chunk but the last is empty or ends with a line feed, the loop extracts from the chunks
  the payload strings it extracts from the whole stream read as one chunk, in the same
  order, and makes the same calls.
\<close>

theorem C1_chunks_cut_at_line_ends:
  assumes "\<forall>c \<in> set (butlast chunks). c = [] \<or> last c = newline"
  shows "stream_payloads chunks = stream_payloads [concat chunks] \<and>
         read_loop parse cbs (map Chunk chunks) = read_loop parse cbs [Chunk (concat chunks)]"
proof -
  have p: "stream_payloads chunks = stream_payloads [concat chunks]"
    using stream_payloads_aligned [OF assms] by (simp add: stream_payloads_def)
  have "read_loop parse cbs (map Chunk chunks) =
        (concat (map (process_payload parse cbs) (stream_payloads chunks)), Inr ())"
    by (rule read_loop_payloads)
  also have "\<dots> = (concat (map (process_payload parse cbs) (stream_payloads [concat chunks])), Inr ())"
    by (simp only: p)
  also have "\<dots> = read_loop parse cbs (map Chunk [concat chunks])"
    by (rule read_loop_payloads [symmetric])
  finally show ?thesis using p by simp
qed

theorem C1_chunks_cut_at_line_ends_witness:
  \<open>last ''data: {"type":"content","content":"Hel","messageId":"a1"}\<newline>'' = newline \<and>
   stream_payloads [''data: {"type":"content","content":"Hel","messageId":"a1"}\<newline>'',
                    ''data: {"type":"end","messageId":"a1"}\<newline>''] =
   stream_payloads [concat [''data: {"type":"content","content":"Hel","messageId":"a1"}\<newline>'',
                            ''data: {"type":"end","messageId":"a1"}\<newline>'']] \<and>
   stream_payloads [''data: {"type":"content","content":"Hel","messageId":"a1"}\<newline>'',
                    ''data: {"type":"end","messageId":"a1"}\<newline>''] =
   [''{"type":"content","content":"Hel","messageId":"a1"}'', ''{"type":"end","messageId":"a1"}'']\<close>
proof -
  have h: \<open>\<forall>c \<in> set (butlast [''data: {"type":"content","content":"Hel","messageId":"a1"}\<newline>'',
                                ''data: {"type":"end","messageId":"a1"}\<newline>'']).
             c = [] \<or> last c = newline\<close>
    by (simp add: newline_def)
  have e: \<open>stream_payloads [''data: {"type":"content","content":"Hel","messageId":"a1"}\<newline>'',
                           ''data: {"type":"end","messageId":"a1"}\<newline>''] =
     [''{"type":"content","content":"Hel","messageId":"a1"}'', ''{"type":"end","messageId":"a1"}'']\<close>
    by (simp add: stream_payloads_def chunk_payloads_def startsWith_def slice_def newline_def)
  have l: \<open>last ''data: {"type":"content","content":"Hel","messageId":"a1"}\<newline>'' = newline\<close>
    by (simp add: newline_def)
  from C1_chunks_cut_at_line_ends [OF h, THEN conjunct1] e l show ?thesis
    by (simp only: simp_thms)
qed

text \<open>
  Claim C1 as stated fails: the stream of the one line
  \<^verbatim>\<open>data: {"type":"end","messageId":"a1"}\<close>, cut inside the line, gives the payload
  \<^verbatim>\<open>{"type":"end","mes\<close> (the rest of the line does not start with \<^verbatim>\<open>data: \<close> and is
  dropped), and read as one chunk it gives the whole payload. The truncated payload does
  not parse, so the cut stream makes no call where the whole one calls \<^verbatim>\<open>onEnd\<close>.
\<close>

theorem C1_cut_inside_line_counterexample:
  \<open>concat [''data: {"type":"end","mes'', ''sageId":"a1"}\<newline>''] =
     ''data: {"type":"end","messageId":"a1"}\<newline>'' \<and>
   stream_payloads [''data: {"type":"end","messageId":"a1"}\<newline>''] =
     [''{"type":"end","messageId":"a1"}''] \<and>
   stream_payloads [''data: {"type":"end","mes'', ''sageId":"a1"}\<newline>''] =
     [''{"type":"end","mes''] \<and>
   stream_payloads [''data: {"type":"end","mes'', ''sageId":"a1"}\<newline>''] \<noteq>
   stream_payloads [''data: {"type":"end","messageId":"a1"}\<newline>''] \<and>
   read_loop example_parse all_callbacks
     [Chunk ''data: {"type":"end","messageId":"a1"}\<newline>''] =
     ([CallEnd (Some (JStr ''a1''))], Inr ()) \<and>
   read_loop example_parse all_callbacks
     [Chunk ''data: {"type":"end","mes'', Chunk ''sageId":"a1"}\<newline>''] = ([], Inr ())\<close>
  by (simp add: stream_payloads_def chunk_payloads_def startsWith_def slice_def newline_def
      process_chunk_def process_line_def process_payload_def example_parse_def dispatch_def
      all_callbacks_def)

lemma process_line_data:
  "process_line parse cbs (''data: '' @ payload) = process_payload parse cbs payload"
  by (simp add: process_line_def startsWith_def slice_def)

lemma calls_skip_line:
  assumes "process_line parse cbs line = []"
  shows "concat (map (process_line parse cbs) (ls1 @ [line] @ ls2)) =
         concat (map (process_line parse cbs) ls1) @ concat (map (process_line parse cbs) ls2)"
  using assms by simp

lemma sendMessageStream_ok:
  assumes "ok response" and "body response = Some reads"
  shows "sendMessageStream parse cbs (Some t) (Inr response) = read_loop parse cbs reads"
  using assms by (simp add: sendMessageStream_def)

lemma dispatch_unknown:
  assumes "get_prop data ''type'' \<notin>
             {Some (JStr ''user_message''), Some (JStr ''assistant_message_start''),
              Some (JStr ''content''), Some (JStr ''end''), Some (JStr ''error'')}"
  shows "dispatch cbs data = []"
  using assms by (simp add: dispatch_def)

text \<open>
  Claim C4. When the response has a status that is not a success, or has no body to read,
  \<^verbatim>\<open>sendMessageStream\<close> makes no call to any of the five callbacks and rejects with an
  \<^verbatim>\<open>Error\<close>; for a signed-in user the message is
  \<^verbatim>\<open>Failed to send streaming message: \<close> followed by the status text, or
  \<^verbatim>\<open>Failed to get response reader\<close>.
\<close>

theorem C4_transport_failure:
  assumes "\<not> ok response \<or> body response = None"
  shows "fst (sendMessageStream parse cbs token (Inr response)) = [] \<and>
         (\<exists>msg. snd (sendMessageStream parse cbs token (Inr response)) = Inl (Error msg)) \<and>
         sendMessageStream parse cbs (Some t) (Inr response) =
           ([], Inl (Error (if \<not> ok response
                            then ''Failed to send streaming message: '' @ statusText response
                            else ''Failed to get response reader'')))"
  using assms by (auto simp: sendMessageStream_def split: option.splits)

theorem C4_transport_failure_witness:
  \<open>\<not> ok \<lparr>ok = False, statusText = ''Internal Server Error'',
          body = Some [Chunk ''data: {"type":"end","messageId":"a1"}\<newline>'']\<rparr> \<and>
   sendMessageStream example_parse all_callbacks (Some ''token'')
     (Inr \<lparr>ok = False, statusText = ''Internal Server Error'',
           body = Some [Chunk ''data: {"type":"end","messageId":"a1"}\<newline>'']\<rparr>) =
     ([], Inl (Error ''Failed to send streaming message: Internal Server Error'')) \<and>
   body \<lparr>ok = True, statusText = ''OK'', body = None\<rparr> = None \<and>
   sendMessageStream example_parse all_callbacks (Some ''token'')
     (Inr \<lparr>ok = True, statusText = ''OK'', body = None\<rparr>) =
     ([], Inl (Error ''Failed to get response reader''))\<close>
proof -
  have h1: \<open>\<not> ok \<lparr>ok = False, statusText = ''Internal Server Error'',
          body = Some [Chunk ''data: {"type":"end","messageId":"a1"}\<newline>'']\<rparr> \<or>
      body \<lparr>ok = False, statusText = ''Internal Server Error'',
          body = Some [Chunk ''data: {"type":"end","messageId":"a1"}\<newline>'']\<rparr> = None\<close>
    by simp
  have h2: \<open>\<not> ok \<lparr>ok = True, statusText = ''OK'', body = None\<rparr> \<or>
            body \<lparr>ok = True, statusText = ''OK'', body = None\<rparr> = None\<close>
    by simp
  show ?thesis
    using C4_transport_failure [OF h1, of example_parse all_callbacks "Some ''token''" "''token''"]
      C4_transport_failure [OF h2, of example_parse all_callbacks "Some ''token''" "''token''"]
    by simp
qed



text \<open>
  Claim C10. A frame whose payload parses to a value whose \<^verbatim>\<open>type\<close> is none of the five
  known strings makes no call; with \<open>ls1\<close> the lines before it and \<open>ls2\<close> the lines after
  it, the calls made are exactly those of \<open>ls1\<close> followed by those of \<open>ls2\<close>, and the
  promise resolves.
\<close>

theorem C10_unknown_type_ignored:
  assumes "parse payload = Some data"
    and "get_prop data ''type'' \<notin>
           {Some (JStr ''user_message''), Some (JStr ''assistant_message_start''),
            Some (JStr ''content''), Some (JStr ''end''), Some (JStr ''error'')}"
    and "ok response" and "body response = Some (map Chunk chunks)"
    and "concat (map (js_split newline) chunks) = ls1 @ [''data: '' @ payload] @ ls2"
  shows "process_payload parse cbs payload = [] \<and>
         sendMessageStream parse cbs (Some t) (Inr response) =
           (concat (map (process_line parse cbs) ls1) @ concat (map (process_line parse cbs) ls2),
            Inr ())"
proof -
  have p: "process_payload parse cbs payload = []"
    using assms(1) dispatch_unknown [OF assms(2)] by (simp add: process_payload_def)
  then have "process_line parse cbs (''data: '' @ payload) = []"
    by (simp only: process_line_data)
  then have "concat (map (process_line parse cbs) (ls1 @ [''data: '' @ payload] @ ls2)) =
      concat (map (process_line parse cbs) ls1) @ concat (map (process_line parse cbs) ls2)"
    by (rule calls_skip_line)
  then have "sendMessageStream parse cbs (Some t) (Inr response) =
           (concat (map (process_line parse cbs) ls1) @ concat (map (process_line parse cbs) ls2),
            Inr ())"
    using assms(5) by (simp only: sendMessageStream_ok [OF assms(3,4)] read_loop_lines)
  with p show ?thesis by simp
qed


theorem C10_unknown_type_ignored_witness:
  \<open>example_parse ''{"type":"ping"}'' = Some (JObj [(''type'', JStr ''ping'')]) \<and>
   sendMessageStream example_parse all_callbacks (Some ''token'')
     (Inr \<lparr>ok = True, statusText = ''OK'',
           body = Some [Chunk ''data: {"type":"content","content":"Hel","messageId":"a1"}\<newline>data: {"type":"ping"}\<newline>data: {"type":"end","messageId":"a1"}\<newline>'']\<rparr>) =
   ([CallContent (Some (JStr ''Hel'')) (Some (JStr ''a1'')), CallEnd (Some (JStr ''a1''))], Inr ())\<close>
proof -
  have h_parse: \<open>example_parse ''{"type":"ping"}'' = Some (JObj [(''type'', JStr ''ping'')])\<close>
    by (simp add: example_parse_def)
  have h_type: \<open>get_prop (JObj [(''type'', JStr ''ping'')] :: unit json) ''type'' \<notin>
      {Some (JStr ''user_message''), Some (JStr ''assistant_message_start''),
       Some (JStr ''content''), Some (JStr ''end''), Some (JStr ''error'')}\<close>
    by simp
  have h_ok: \<open>ok \<lparr>ok = True, statusText = ''OK'',
           body = Some [Chunk ''data: {"type":"content","content":"Hel","messageId":"a1"}\<newline>data: {"type":"ping"}\<newline>data: {"type":"end","messageId":"a1"}\<newline>'']\<rparr>\<close>
    by simp
  have h_body: \<open>body \<lparr>ok = True, statusText = ''OK'',
           body = Some [Chunk ''data: {"type":"content","content":"Hel","messageId":"a1"}\<newline>data: {"type":"ping"}\<newline>data: {"type":"end","messageId":"a1"}\<newline>'']\<rparr> =
      Some (map Chunk [''data: {"type":"content","content":"Hel","messageId":"a1"}\<newline>data: {"type":"ping"}\<newline>data: {"type":"end","messageId":"a1"}\<newline>''])\<close>
    by simp
  have h_lines: \<open>concat (map (js_split newline) [''data: {"type":"content","content":"Hel","messageId":"a1"}\<newline>data: {"type":"ping"}\<newline>data: {"type":"end","messageId":"a1"}\<newline>'']) =
      [''data: {"type":"content","content":"Hel","messageId":"a1"}''] @ [''data: '' @ ''{"type":"ping"}''] @ [''data: {"type":"end","messageId":"a1"}'', []]\<close>
    by (simp add: newline_def)
  have calls: \<open>concat (map (process_line example_parse all_callbacks) [''data: {"type":"content","content":"Hel","messageId":"a1"}'']) @
      concat (map (process_line example_parse all_callbacks) [''data: {"type":"end","messageId":"a1"}'', []]) =
      [CallContent (Some (JStr ''Hel'')) (Some (JStr ''a1'')), CallEnd (Some (JStr ''a1''))]\<close>
    by (simp add: process_line_def process_payload_def startsWith_def slice_def
        example_parse_def dispatch_def all_callbacks_def)
  show ?thesis
    using C10_unknown_type_ignored [where parse = example_parse and cbs = all_callbacks
        and t = "''token''", OF h_parse h_type h_ok h_body h_lines] h_parse
    unfolding calls by simp
qed

section \<open>Properties of the conversation cache\<close>

lemma patchMessages_absent:
  "messageId \<notin> msg_id ` set old \<Longrightarrow> patchMessages messageId fragment appending old = old"
  unfolding patchMessages_def by (induction old) auto

lemma finalizeMessages_idem:
  "finalizeMessages messageId (finalizeMessages messageId old) = finalizeMessages messageId old"
  unfolding finalizeMessages_def by (induction old) auto

lemma messages_of_setMessages:
  "messages_of (setMessages cid f qc) cid' =
     (if cid' = cid then f (messages_of qc cid) else messages_of qc cid')"
  by (simp add: messages_of_def setMessages_def)

lemma messages_of_setConversations [simp]:
  "messages_of (setConversations f qc) cid = messages_of qc cid"
  by (simp add: messages_of_def setConversations_def)

lemma conversations_of_setConversations:
  "conversations_of (setConversations f qc) = f (conversations_of qc)"
  by (simp add: conversations_of_def setConversations_def)

lemma conversations_of_setMessages [simp]:
  "conversations_of (setMessages cid f qc) = conversations_of qc"
  by (simp add: conversations_of_def setMessages_def)

lemma setMessages_twice:
  "setMessages cid f (setMessages cid g qc) = setMessages cid (f \<circ> g) qc"
  by (simp add: setMessages_def)

lemma setConversations_twice:
  "setConversations f (setConversations g qc) = setConversations (f \<circ> g) qc"
  by (simp add: setConversations_def)

lemma setMessages_setConversations:
  "setMessages cid f (setConversations g qc) = setConversations g (setMessages cid f qc)"
  by (simp add: setMessages_def setConversations_def)

lemma sendMessage_onEnd_idem:
  "sendMessage_onEnd cid message conversations currentMessages messageId
     (sendMessage_onEnd cid message conversations currentMessages messageId p) =
   sendMessage_onEnd cid message conversations currentMessages messageId p"
proof -
  have fin: "finalizeMessages messageId \<circ> finalizeMessages messageId = finalizeMessages messageId"
    by (rule ext) (simp add: finalizeMessages_idem)
  have ret: "(\<lambda>conv. if conv_id conv = cid then conv\<lparr>title := t\<rparr> else conv) \<circ>
             (\<lambda>conv. if conv_id conv = cid then conv\<lparr>title := t\<rparr> else conv) =
             (\<lambda>conv. if conv_id conv = cid then conv\<lparr>title := t\<rparr> else conv)" for t
    by (rule ext) simp
  show ?thesis
    by (simp add: sendMessage_onEnd_def Let_def setMessages_setConversations
        setMessages_twice setConversations_twice fin ret)
qed

lemmas example_defs =
  example_provider_def example_client_def example_conversation_def example_message_def

lemma patchMessages_append:
  "patchMessages mid frag app (xs @ ys) = patchMessages mid frag app xs @ patchMessages mid frag app ys"
  by (simp add: patchMessages_def)

lemma finalizeMessages_append:
  "finalizeMessages mid (xs @ ys) = finalizeMessages mid xs @ finalizeMessages mid ys"
  by (simp add: finalizeMessages_def)

lemma messages_of_addMessageToCache:
  "messages_of (addMessageToCache cid msg now qc) cid' =
     (if cid' = cid then messages_of qc cid @ [msg] else messages_of qc cid')"
  by (simp add: addMessageToCache_def messages_of_setMessages)

lemma messages_of_updateMessageInCache:
  "messages_of (updateMessageInCache cid mid frag app qc) cid' =
     (if cid' = cid then patchMessages mid frag app (messages_of qc cid) else messages_of qc cid')"
  by (simp add: updateMessageInCache_def messages_of_setMessages)

lemma messages_of_onEnd:
  "messages_of (queryClient (sendMessage_onEnd cid message convs cur mid p)) cid' =
     (if cid' = cid then finalizeMessages mid (messages_of (queryClient p) cid)
      else messages_of (queryClient p) cid')"
  by (simp add: sendMessage_onEnd_def Let_def messages_of_setMessages)

lemma streamed_messages:
  "messages_of (queryClient
     (sendMessage_onEnd cid message convs cur messageId
       (sendMessage_onContent cid fragment' messageId
         (sendMessage_onContent cid fragment messageId
           (sendMessage_onAssistantMessageStart cid messageId ts now'
             (sendMessage_onUserMessage cid um now p)))))) cid =
   finalizeMessages messageId
     (patchMessages messageId fragment' True
       (patchMessages messageId fragment True (messages_of (queryClient p) cid @ [um]))) @
   [\<lparr>msg_id = messageId, role = Assistant, content = fragment @ fragment', timestamp = ts,
     isStreaming = Some False\<rparr>]"
  by (simp add: messages_of_onEnd sendMessage_onContent_def sendMessage_onAssistantMessageStart_def
      sendMessage_onUserMessage_def messages_of_updateMessageInCache messages_of_addMessageToCache
      patchMessages_append finalizeMessages_append Let_def)
    (simp add: patchMessages_def finalizeMessages_def)

text \<open>
  Claim C2. From any provider state, after the callbacks for \<^verbatim>\<open>user_message\<close>,
  \<^verbatim>\<open>assistant_message_start\<close> of a message, two \<^verbatim>\<open>content\<close> fragments for it and its
  \<^verbatim>\<open>end\<close>, the message list of the conversation is the earlier list and the user message,
  patched and finalized wherever a message carries the same id, followed by the assistant
  message whose content is the first fragment followed by the second and whose
  \<^verbatim>\<open>isStreaming\<close> is \<^verbatim>\<open>false\<close>. With the fragments \<^verbatim>\<open>Hel\<close> and \<^verbatim>\<open>lo\<close> the list holds the
  assistant message with content \<^verbatim>\<open>Hello\<close>.
\<close>

theorem C2_streamed_reply:
  "messages_of (queryClient
     (sendMessage_onEnd cid message convs cur messageId
       (sendMessage_onContent cid fragment' messageId
         (sendMessage_onContent cid fragment messageId
           (sendMessage_onAssistantMessageStart cid messageId ts now'
             (sendMessage_onUserMessage cid um now p)))))) cid =
   finalizeMessages messageId
     (patchMessages messageId fragment' True
       (patchMessages messageId fragment True (messages_of (queryClient p) cid @ [um]))) @
   [\<lparr>msg_id = messageId, role = Assistant, content = fragment @ fragment', timestamp = ts,
     isStreaming = Some False\<rparr>]
   \<and>
   \<lparr>msg_id = messageId, role = Assistant, content = ''Hello'', timestamp = ts,
    isStreaming = Some False\<rparr>
     \<in> set (messages_of (queryClient
         (sendMessage_onEnd cid message convs cur messageId
           (sendMessage_onContent cid ''lo'' messageId
             (sendMessage_onContent cid ''Hel'' messageId
               (sendMessage_onAssistantMessageStart cid messageId ts now'
                 (sendMessage_onUserMessage cid um now p)))))) cid)"
  by (simp only: streamed_messages) simp

theorem C2_streamed_reply_witness:
  "messages_of (queryClient
     (sendMessage_onEnd ''c1'' ''Hello?'' (conversations_of example_client) [example_message] ''a1''
       (sendMessage_onContent ''c1'' ''lo'' ''a1''
         (sendMessage_onContent ''c1'' ''Hel'' ''a1''
           (sendMessage_onAssistantMessageStart ''c1'' ''a1'' ''2025-06-01T12:05:01.000Z''
              ''2025-06-01T12:05:02.000Z''
             (sendMessage_onUserMessage ''c1''
                \<lparr>msg_id = ''u2'', role = User, content = ''Hello?'',
                 timestamp = ''2025-06-01T12:05:00.000Z'', isStreaming = None\<rparr>
                ''2025-06-01T12:05:01.000Z'' example_provider)))))) ''c1'' =
   [example_message,
    \<lparr>msg_id = ''u2'', role = User, content = ''Hello?'',
     timestamp = ''2025-06-01T12:05:00.000Z'', isStreaming = None\<rparr>,
    \<lparr>msg_id = ''a1'', role = Assistant, content = ''Hello'',
     timestamp = ''2025-06-01T12:05:01.000Z'', isStreaming = Some False\<rparr>]"
  using C2_streamed_reply [where p = example_provider and cid = "''c1''" and messageId = "''a1''"
      and fragment = "''Hel''" and fragment' = "''lo''", THEN conjunct1]
  by (simp add: example_defs messages_of_def patchMessages_def finalizeMessages_def)

text \<open>
  Claim C3 does not hold of the code. The callback for \<^verbatim>\<open>end\<close> looks the conversation up
  in the \<open>conversations\<close> of the render that created \<^verbatim>\<open>sendMessage\<close> and counts the
  \<open>currentMessages\<close> of that render, which are the messages of the selected conversation.
  First exchange: a signed-in user with no conversation sends \<^verbatim>\<open>Hi\<close>; \<^verbatim>\<open>sendMessage\<close>
  creates the conversation, the reply streams and ends, the conversation holds the user
  message and the finished reply, and its title is still \<^verbatim>\<open>New Chat\<close>, since the rendered
  list was empty. Later exchange: with the first conversation selected and one message
  rendered, a message sent to the second conversation, which has three cached messages,
  replaces its title.
\<close>

theorem C3_title_rule_fails:
  "rendered_conversations empty_provider = [] \<and>
   rendered_currentMessages empty_provider = [] \<and>
   messages_of (queryClient
      (sendMessage True ''Hi'' None (rendered_conversations empty_provider)
         (rendered_currentMessages empty_provider)
         (Inr (example_conversation ''c1'' ''New Chat'')) example_calls (Inr ())
         empty_provider)) ''c1'' =
     [\<lparr>msg_id = ''u1'', role = User, content = ''Hi'',
       timestamp = ''2025-06-01T12:05:00.000Z'', isStreaming = None\<rparr>,
      \<lparr>msg_id = ''a1'', role = Assistant, content = ''Hello'',
       timestamp = ''2025-06-01T12:05:01.000Z'', isStreaming = Some False\<rparr>] \<and>
   map (\<lambda>conv. (conv_id conv, title conv)) (conversations_of (queryClient
      (sendMessage True ''Hi'' None (rendered_conversations empty_provider)
         (rendered_currentMessages empty_provider)
         (Inr (example_conversation ''c1'' ''New Chat'')) example_calls (Inr ())
         empty_provider))) = [(''c1'', ''New Chat'')] \<and>
   autoTitle ''Hi'' = ''Hi'' \<and>
   length (rendered_currentMessages busy_provider) = 1 \<and>
   length (messages_of (queryClient busy_provider) ''c2'') = 3 \<and>
   map (\<lambda>conv. (conv_id conv, title conv)) (rendered_conversations busy_provider) =
     [(''c1'', ''New Chat''), (''c2'', ''Second''), (''c3'', ''Third'')] \<and>
   map (\<lambda>conv. (conv_id conv, title conv)) (conversations_of (queryClient
      (sendMessage True ''Again'' (Some ''c2'') (rendered_conversations busy_provider)
         (rendered_currentMessages busy_provider)
         (Inr (example_conversation ''c9'' ''New Chat'')) example_calls (Inr ())
         busy_provider))) =
     [(''c1'', ''New Chat''), (''c2'', ''Again''), (''c3'', ''Third'')]"
  by (simp add: sendMessage_def sendMessage_stream_def createNewConversation_def
      useCreateConversation_onSuccess_def truthy_def rendered_conversations_def
      rendered_currentMessages_def empty_provider_def busy_provider_def example_calls_def
      example_defs sendMessage_onUserMessage_def sendMessage_onAssistantMessageStart_def
      sendMessage_onContent_def sendMessage_onEnd_def addMessageToCache_def
      updateMessageInCache_def patchMessages_def finalizeMessages_def autoTitle_def
      setMessages_def setConversations_def messages_of_def conversations_of_def Let_def)

lemma filter_head:
  "(if length xs > 0 then Some (f (xs ! 0)) else None) = (case xs of [] \<Rightarrow> None | x # _ \<Rightarrow> Some (f x))"
  by (cases xs) simp_all

lemma conversations_of_onSuccess:
  "conversations_of (useDeleteConversation_onSuccess cid qc) =
     filter (\<lambda>conv. conv_id conv \<noteq> cid) (conversations_of qc)"
  by (simp add: useDeleteConversation_onSuccess_def removeMessages_def conversations_of_def
      setConversations_def)

lemma messages_query_onSuccess:
  "messages_query (useDeleteConversation_onSuccess cid qc) cid' =
     (if cid' = cid then None else messages_query qc cid')"
  by (simp add: useDeleteConversation_onSuccess_def removeMessages_def setConversations_def)

text \<open>
  Claim C6. When the request succeeds and the rendered list is the cached one, deleting a
  conversation leaves the cached list without the conversations of that id, in the same
  order, and removes the message list of that id, no other; if that id was selected, the
  selection is the id of the head of the remaining list, or none when that list is empty;
  otherwise the selection is unchanged.
\<close>

theorem C6_delete_conversation:
  assumes "conversations = conversations_of (queryClient p)"
    and "p' = deleteConversation cid (Inr ()) conversations p"
  shows "conversations_of (queryClient p') =
           filter (\<lambda>conv. conv_id conv \<noteq> cid) (conversations_of (queryClient p)) \<and>
         cid \<notin> conv_id ` set (conversations_of (queryClient p')) \<and>
         messages_query (queryClient p') cid = None \<and>
         (cid' \<noteq> cid \<longrightarrow> messages_query (queryClient p') cid' = messages_query (queryClient p) cid') \<and>
         (currentConversationId (state p) = Some cid \<longrightarrow>
            currentConversationId (state p') =
              (case conversations_of (queryClient p') of
                 [] \<Rightarrow> None
               | conv # rest \<Rightarrow> Some (conv_id conv))) \<and>
         (currentConversationId (state p) \<noteq> Some cid \<longrightarrow>
            currentConversationId (state p') = currentConversationId (state p))"
proof -
  have qc: "queryClient p' = useDeleteConversation_onSuccess cid (queryClient p)"
    using assms(2) by (simp add: deleteConversation_def Let_def)
  have convs: "conversations_of (queryClient p') =
      filter (\<lambda>conv. conv_id conv \<noteq> cid) (conversations_of (queryClient p))"
    by (simp add: qc conversations_of_onSuccess)
  have gone: "cid \<notin> conv_id ` set (conversations_of (queryClient p'))"
    by (auto simp: convs)
  have msgs: "messages_query (queryClient p') cid = None"
    by (simp add: qc messages_query_onSuccess)
  have others: "cid' \<noteq> cid \<Longrightarrow>
      messages_query (queryClient p') cid' = messages_query (queryClient p) cid'"
    by (simp add: qc messages_query_onSuccess)
  have sel: "currentConversationId (state p') =
        (case conversations_of (queryClient p') of [] \<Rightarrow> None | conv # rest \<Rightarrow> Some (conv_id conv))"
    if "currentConversationId (state p) = Some cid"
  proof -
    have "currentConversationId (state p') =
        (if length (filter (\<lambda>conv. conv_id conv \<noteq> cid) conversations) > 0
         then Some (conv_id (filter (\<lambda>conv. conv_id conv \<noteq> cid) conversations ! 0))
         else None)"
      using assms(2) that by (simp add: deleteConversation_def Let_def)
    then show ?thesis
      by (simp only: filter_head convs assms(1))
  qed
  have unsel: "currentConversationId (state p) \<noteq> Some cid \<Longrightarrow>
      currentConversationId (state p') = currentConversationId (state p)"
    using assms(2) by (simp add: deleteConversation_def Let_def)
  from convs gone msgs others sel unsel show ?thesis by blast
qed

theorem C6_delete_conversation_witness:
  "currentConversationId (state example_provider) = Some ''c1'' \<and>
   map conv_id (conversations_of (queryClient
      (deleteConversation ''c1'' (Inr ()) (conversations_of (queryClient example_provider))
         example_provider))) = [''c2'', ''c3''] \<and>
   messages_query (queryClient
      (deleteConversation ''c1'' (Inr ()) (conversations_of (queryClient example_provider))
         example_provider)) ''c1'' = None \<and>
   currentConversationId (state
      (deleteConversation ''c1'' (Inr ()) (conversations_of (queryClient example_provider))
         example_provider)) = Some ''c2'' \<and>
   currentConversationId (state
      (deleteConversation ''c2'' (Inr ()) (conversations_of (queryClient example_provider))
         example_provider)) = Some ''c1'' \<and>
   currentConversationId (state
      (deleteConversation ''c1'' (Inr ()) [example_conversation ''c1'' ''New Chat'']
         (example_provider\<lparr>queryClient := example_client
            \<lparr>conversations_query := Some [example_conversation ''c1'' ''New Chat'']\<rparr>\<rparr>))) = None"
proof -
  have sel: "currentConversationId (state example_provider) = Some ''c1''"
    by (simp add: example_provider_def)
  have unsel: "currentConversationId (state example_provider) \<noteq> Some ''c2''"
    by (simp add: example_provider_def)
  note first = C6_delete_conversation [where p = example_provider and cid = "''c1''",
      OF refl refl]
  note second = C6_delete_conversation [where p = example_provider and cid = "''c2''",
      OF refl refl]
  have last_rendered: "[example_conversation ''c1'' ''New Chat''] =
      conversations_of (queryClient (example_provider\<lparr>queryClient := example_client
            \<lparr>conversations_query := Some [example_conversation ''c1'' ''New Chat'']\<rparr>\<rparr>))"
    by (simp add: conversations_of_def)
  have last_sel: "currentConversationId (state (example_provider\<lparr>queryClient := example_client
            \<lparr>conversations_query := Some [example_conversation ''c1'' ''New Chat'']\<rparr>\<rparr>)) = Some ''c1''"
    by (simp add: example_provider_def)
  note third = C6_delete_conversation [where cid = "''c1''", OF last_rendered refl]
  have ids: "map conv_id (conversations_of (queryClient
      (deleteConversation ''c1'' (Inr ()) (conversations_of (queryClient example_provider))
         example_provider))) = [''c2'', ''c3'']"
    unfolding first [THEN conjunct1] by (simp add: example_defs conversations_of_def)
  have gone: "messages_query (queryClient
      (deleteConversation ''c1'' (Inr ()) (conversations_of (queryClient example_provider))
         example_provider)) ''c1'' = None"
    using first by blast
  have head: "currentConversationId (state
      (deleteConversation ''c1'' (Inr ()) (conversations_of (queryClient example_provider))
         example_provider)) = Some ''c2''"
  proof -
    have "currentConversationId (state
      (deleteConversation ''c1'' (Inr ()) (conversations_of (queryClient example_provider))
         example_provider)) =
      (case conversations_of (queryClient
          (deleteConversation ''c1'' (Inr ()) (conversations_of (queryClient example_provider))
             example_provider)) of [] \<Rightarrow> None | conv # rest \<Rightarrow> Some (conv_id conv))"
      using first sel by blast
    then show ?thesis
      unfolding first [THEN conjunct1] by (simp add: example_defs conversations_of_def)
  qed
  have kept: "currentConversationId (state
      (deleteConversation ''c2'' (Inr ()) (conversations_of (queryClient example_provider))
         example_provider)) = Some ''c1''"
    using second unsel sel by simp
  have none: "currentConversationId (state
      (deleteConversation ''c1'' (Inr ()) [example_conversation ''c1'' ''New Chat'']
         (example_provider\<lparr>queryClient := example_client
            \<lparr>conversations_query := Some [example_conversation ''c1'' ''New Chat'']\<rparr>\<rparr>))) = None"
  proof -
    have "currentConversationId (state
      (deleteConversation ''c1'' (Inr ()) [example_conversation ''c1'' ''New Chat'']
         (example_provider\<lparr>queryClient := example_client
            \<lparr>conversations_query := Some [example_conversation ''c1'' ''New Chat'']\<rparr>\<rparr>))) =
      (case conversations_of (queryClient
          (deleteConversation ''c1'' (Inr ()) [example_conversation ''c1'' ''New Chat'']
         (example_provider\<lparr>queryClient := example_client
            \<lparr>conversations_query := Some [example_conversation ''c1'' ''New Chat'']\<rparr>\<rparr>))) of
         [] \<Rightarrow> None | conv # rest \<Rightarrow> Some (conv_id conv))"
      using third last_sel by blast
    then show ?thesis
      unfolding third [THEN conjunct1] by (simp add: example_defs conversations_of_def)
  qed
  from sel ids gone head kept none show ?thesis by blast
qed

text \<open>
  Claim C7. Marking a message as no longer streaming a second time changes nothing: on the
  message list, and for the whole callback of \<^verbatim>\<open>end\<close> on the provider's state and cache.
\<close>

theorem C7_finalize_idempotent:
  "finalizeMessages messageId (finalizeMessages messageId old) = finalizeMessages messageId old \<and>
   sendMessage_onEnd cid message conversations currentMessages messageId
     (sendMessage_onEnd cid message conversations currentMessages messageId p) =
   sendMessage_onEnd cid message conversations currentMessages messageId p"
  by (simp only: finalizeMessages_idem sendMessage_onEnd_idem)

theorem C7_finalize_idempotent_witness:
  "finalizeMessages ''a1''
     (finalizeMessages ''a1''
       [example_message,
        \<lparr>msg_id = ''a1'', role = Assistant, content = ''Hello'',
         timestamp = ''2025-06-01T12:05:01.000Z'', isStreaming = Some True\<rparr>]) =
   [example_message,
    \<lparr>msg_id = ''a1'', role = Assistant, content = ''Hello'',
     timestamp = ''2025-06-01T12:05:01.000Z'', isStreaming = Some False\<rparr>]"
  using C7_finalize_idempotent [where messageId = "''a1''" and old = "[example_message,
        \<lparr>msg_id = ''a1'', role = Assistant, content = ''Hello'',
         timestamp = ''2025-06-01T12:05:01.000Z'', isStreaming = Some True\<rparr>]", THEN conjunct1]
  by (simp add: finalizeMessages_def example_message_def)

lemma patchMessages_nth:
  "i < length old \<Longrightarrow>
   patchMessages mid frag app old ! i =
     (if msg_id (old ! i) = mid
      then (old ! i)\<lparr>content := (if app then content (old ! i) @ frag else frag)\<rparr>
      else old ! i)"
  by (simp add: patchMessages_def)

text \<open>
  Claim C8. \<^verbatim>\<open>updateMessageInCache\<close>, appending or replacing: when no message of the list has
  the id, the list read from the cache is unchanged; in every case the list keeps its length,
  every message keeps its id, role, timestamp and \<^verbatim>\<open>isStreaming\<close>, a message of another id is
  unchanged, and a message of the id gets the new content; the lists of the other
  conversations and the list of conversations are untouched.
\<close>

theorem C8_patch_frame:
  assumes "qc' = updateMessageInCache cid mid frag appending qc"
  shows "(mid \<notin> msg_id ` set (messages_of qc cid) \<longrightarrow> messages_of qc' cid = messages_of qc cid) \<and>
         length (messages_of qc' cid) = length (messages_of qc cid) \<and>
         (\<forall>i < length (messages_of qc cid).
            msg_id (messages_of qc' cid ! i) = msg_id (messages_of qc cid ! i) \<and>
            role (messages_of qc' cid ! i) = role (messages_of qc cid ! i) \<and>
            timestamp (messages_of qc' cid ! i) = timestamp (messages_of qc cid ! i) \<and>
            isStreaming (messages_of qc' cid ! i) = isStreaming (messages_of qc cid ! i) \<and>
            (msg_id (messages_of qc cid ! i) \<noteq> mid \<longrightarrow>
               messages_of qc' cid ! i = messages_of qc cid ! i) \<and>
            (msg_id (messages_of qc cid ! i) = mid \<longrightarrow>
               content (messages_of qc' cid ! i) =
                 (if appending then content (messages_of qc cid ! i) @ frag else frag))) \<and>
         (cid' \<noteq> cid \<longrightarrow> messages_query qc' cid' = messages_query qc cid') \<and>
         conversations_query qc' = conversations_query qc"
proof -
  have m: "messages_of qc' cid = patchMessages mid frag appending (messages_of qc cid)"
    using assms by (simp add: messages_of_updateMessageInCache)
  have absent: "mid \<notin> msg_id ` set (messages_of qc cid) \<Longrightarrow> messages_of qc' cid = messages_of qc cid"
    by (simp add: m patchMessages_absent)
  have len: "length (messages_of qc' cid) = length (messages_of qc cid)"
    by (simp add: m patchMessages_def)
  have nth: "\<forall>i < length (messages_of qc cid).
            msg_id (messages_of qc' cid ! i) = msg_id (messages_of qc cid ! i) \<and>
            role (messages_of qc' cid ! i) = role (messages_of qc cid ! i) \<and>
            timestamp (messages_of qc' cid ! i) = timestamp (messages_of qc cid ! i) \<and>
            isStreaming (messages_of qc' cid ! i) = isStreaming (messages_of qc cid ! i) \<and>
            (msg_id (messages_of qc cid ! i) \<noteq> mid \<longrightarrow>
               messages_of qc' cid ! i = messages_of qc cid ! i) \<and>
            (msg_id (messages_of qc cid ! i) = mid \<longrightarrow>
               content (messages_of qc' cid ! i) =
                 (if appending then content (messages_of qc cid ! i) @ frag else frag))"
    by (simp add: m patchMessages_nth)
  have others: "cid' \<noteq> cid \<Longrightarrow> messages_query qc' cid' = messages_query qc cid'"
    using assms by (simp add: updateMessageInCache_def setMessages_def)
  have convs: "conversations_query qc' = conversations_query qc"
    using assms by (simp add: updateMessageInCache_def setMessages_def)
  from absent len nth others convs show ?thesis by blast
qed

theorem C8_patch_frame_witness:
  "''zz'' \<notin> msg_id ` set (messages_of example_client ''c1'') \<and>
   messages_of (updateMessageInCache ''c1'' ''zz'' ''!'' True example_client) ''c1'' =
     messages_of example_client ''c1'' \<and>
   messages_of example_client ''c1'' = [example_message] \<and>
   msg_id example_message = ''u1'' \<and>
   messages_of (updateMessageInCache ''c1'' ''u1'' ''!'' True example_client) ''c1'' ! 0 =
     example_message\<lparr>content := ''Hi!''\<rparr> \<and>
   messages_of (updateMessageInCache ''c1'' ''u1'' ''Hello'' False example_client) ''c1'' ! 0 =
     example_message\<lparr>content := ''Hello''\<rparr>"
proof -
  have absent: "''zz'' \<notin> msg_id ` set (messages_of example_client ''c1'')"
    by (simp add: example_defs messages_of_def)
  have msgs: "messages_of example_client ''c1'' = [example_message]"
    by (simp add: example_defs messages_of_def)
  have u: "msg_id example_message = ''u1''"
    by (simp add: example_message_def)
  have c: "content example_message = ''Hi''"
    by (simp add: example_message_def)
  note noop = C8_patch_frame [where qc = example_client and cid = "''c1''" and mid = "''zz''"
      and frag = "''!''" and appending = True, OF refl, THEN conjunct1, rule_format, OF absent]
  note app = C8_patch_frame [where qc = example_client and cid = "''c1''" and mid = "''u1''"
      and frag = "''!''" and appending = True, OF refl, THEN conjunct2, THEN conjunct2,
      THEN conjunct1, rule_format, of 0]
  note rep = C8_patch_frame [where qc = example_client and cid = "''c1''" and mid = "''u1''"
      and frag = "''Hello''" and appending = False, OF refl, THEN conjunct2, THEN conjunct2,
      THEN conjunct1, rule_format, of 0]
  have a: "messages_of (updateMessageInCache ''c1'' ''u1'' ''!'' True example_client) ''c1'' ! 0 =
     example_message\<lparr>content := ''Hi!''\<rparr>"
    using app by (simp add: msgs u c)
  have r: "messages_of (updateMessageInCache ''c1'' ''u1'' ''Hello'' False example_client) ''c1'' ! 0 =
     example_message\<lparr>content := ''Hello''\<rparr>"
    using rep by (simp add: msgs u c)
  from absent noop msgs u a r show ?thesis by blast
qed

lemma conversations_of_addMessageToCache:
  "conversations_of (addMessageToCache cid msg now qc) =
     map (\<lambda>conv. if conv_id conv = cid then conv\<lparr>updatedAt := now\<rparr> else conv) (conversations_of qc)"
  by (simp add: addMessageToCache_def conversations_of_setConversations)

lemma bump_monotone:
  "\<forall>conv \<in> set convs. conv_id conv = cid \<longrightarrow> updatedAt conv \<le> now \<Longrightarrow>
   list_all2 (\<lambda>old new. updatedAt old \<le> updatedAt new) convs
     (map (\<lambda>conv. if conv_id conv = cid then conv\<lparr>updatedAt := now\<rparr> else conv) convs)"
  by (induction convs) auto

text \<open>
  Claim C9, as the code has it. \<^verbatim>\<open>addMessageToCache\<close> puts the message at the end of the
  conversation's list and leaves the other lists alone; in the list of conversations, those
  of the target id get \<open>updatedAt\<close> set to the clock reading and nothing else changes. The
  reading is stored whatever the earlier value was, so \<open>updatedAt\<close> does not go back only
  when the reading is not earlier than the stored value (timestamps compared as the ISO
  strings they are).
\<close>

theorem C9_append_message:
  assumes "qc' = addMessageToCache cid msg now qc"
  shows "messages_of qc' cid = messages_of qc cid @ [msg] \<and>
         (cid' \<noteq> cid \<longrightarrow> messages_query qc' cid' = messages_query qc cid') \<and>
         conversations_of qc' =
           map (\<lambda>conv. if conv_id conv = cid then conv\<lparr>updatedAt := now\<rparr> else conv)
             (conversations_of qc) \<and>
         ((\<forall>conv \<in> set (conversations_of qc). conv_id conv = cid \<longrightarrow> updatedAt conv \<le> now) \<longrightarrow>
            list_all2 (\<lambda>old new. updatedAt old \<le> updatedAt new)
              (conversations_of qc) (conversations_of qc'))"
proof -
  have m: "messages_of qc' cid = messages_of qc cid @ [msg]"
    using assms by (simp add: messages_of_addMessageToCache)
  have others: "cid' \<noteq> cid \<Longrightarrow> messages_query qc' cid' = messages_query qc cid'"
    using assms by (simp add: addMessageToCache_def setMessages_def setConversations_def)
  have convs: "conversations_of qc' =
      map (\<lambda>conv. if conv_id conv = cid then conv\<lparr>updatedAt := now\<rparr> else conv) (conversations_of qc)"
    using assms by (simp add: conversations_of_addMessageToCache)
  have mono: "\<forall>conv \<in> set (conversations_of qc). conv_id conv = cid \<longrightarrow> updatedAt conv \<le> now \<Longrightarrow>
      list_all2 (\<lambda>old new. updatedAt old \<le> updatedAt new) (conversations_of qc) (conversations_of qc')"
    unfolding convs by (rule bump_monotone)
  from m others convs mono show ?thesis by blast
qed

theorem C9_append_message_witness:
  "updatedAt (example_conversation ''c1'' ''New Chat'') \<le> ''2025-06-01T12:05:00.000Z'' \<and>
   messages_of (addMessageToCache ''c1''
        \<lparr>msg_id = ''u2'', role = User, content = ''Hello?'',
         timestamp = ''2025-06-01T12:05:00.000Z'', isStreaming = None\<rparr>
        ''2025-06-01T12:05:00.000Z'' example_client) ''c1'' =
     [example_message,
      \<lparr>msg_id = ''u2'', role = User, content = ''Hello?'',
       timestamp = ''2025-06-01T12:05:00.000Z'', isStreaming = None\<rparr>] \<and>
   conversations_of (addMessageToCache ''c1''
        \<lparr>msg_id = ''u2'', role = User, content = ''Hello?'',
         timestamp = ''2025-06-01T12:05:00.000Z'', isStreaming = None\<rparr>
        ''2025-06-01T12:05:00.000Z'' example_client) =
     [(example_conversation ''c1'' ''New Chat'')\<lparr>updatedAt := ''2025-06-01T12:05:00.000Z''\<rparr>,
      example_conversation ''c2'' ''Second'', example_conversation ''c3'' ''Third''] \<and>
   list_all2 (\<lambda>old new. updatedAt old \<le> updatedAt new)
     (conversations_of example_client)
     (conversations_of (addMessageToCache ''c1''
        \<lparr>msg_id = ''u2'', role = User, content = ''Hello?'',
         timestamp = ''2025-06-01T12:05:00.000Z'', isStreaming = None\<rparr>
        ''2025-06-01T12:05:00.000Z'' example_client))"
proof -
  have le: "updatedAt (example_conversation ''c1'' ''New Chat'') \<le> ''2025-06-01T12:05:00.000Z''"
    by (simp add: example_conversation_def)
  have hyp: "\<forall>conv \<in> set (conversations_of example_client).
      conv_id conv = ''c1'' \<longrightarrow> updatedAt conv \<le> ''2025-06-01T12:05:00.000Z''"
    by (simp add: example_defs conversations_of_def)
  note inst = C9_append_message [where qc = example_client and cid = "''c1''"
      and now = "''2025-06-01T12:05:00.000Z''"
      and msg = "\<lparr>msg_id = ''u2'', role = User, content = ''Hello?'',
         timestamp = ''2025-06-01T12:05:00.000Z'', isStreaming = None\<rparr>", OF refl]
  have m: "messages_of (addMessageToCache ''c1''
        \<lparr>msg_id = ''u2'', role = User, content = ''Hello?'',
         timestamp = ''2025-06-01T12:05:00.000Z'', isStreaming = None\<rparr>
        ''2025-06-01T12:05:00.000Z'' example_client) ''c1'' =
     [example_message,
      \<lparr>msg_id = ''u2'', role = User, content = ''Hello?'',
       timestamp = ''2025-06-01T12:05:00.000Z'', isStreaming = None\<rparr>]"
    unfolding inst [THEN conjunct1] by (simp add: example_client_def messages_of_def)
  have c: "conversations_of (addMessageToCache ''c1''
        \<lparr>msg_id = ''u2'', role = User, content = ''Hello?'',
         timestamp = ''2025-06-01T12:05:00.000Z'', isStreaming = None\<rparr>
        ''2025-06-01T12:05:00.000Z'' example_client) =
     [(example_conversation ''c1'' ''New Chat'')\<lparr>updatedAt := ''2025-06-01T12:05:00.000Z''\<rparr>,
      example_conversation ''c2'' ''Second'', example_conversation ''c3'' ''Third'']"
    unfolding inst [THEN conjunct2, THEN conjunct2, THEN conjunct1]
    by (simp add: example_client_def example_conversation_def conversations_of_def)
  from le m c inst [THEN conjunct2, THEN conjunct2, THEN conjunct2, THEN mp, OF hyp]
  show ?thesis by blast
qed

text \<open>
  Claim C9 as stated fails where it says that \<open>updatedAt\<close> advances on every append: with a
  stored \<open>updatedAt\<close> of 12:00:00 and a clock that reads 11:59:59 (a client clock behind the
  server that stamped the conversation, or a clock set back), the append moves \<open>updatedAt\<close>
  back to 11:59:59.
\<close>

theorem C9_clock_behind_counterexample:
  "updatedAt (hd (conversations_of example_client)) = ''2025-06-01T12:00:00.000Z'' \<and>
   updatedAt (hd (conversations_of
      (addMessageToCache ''c1'' example_message ''2025-06-01T11:59:59.000Z'' example_client))) =
     ''2025-06-01T11:59:59.000Z'' \<and>
   \<not> updatedAt (hd (conversations_of example_client)) \<le>
     updatedAt (hd (conversations_of
      (addMessageToCache ''c1'' example_message ''2025-06-01T11:59:59.000Z'' example_client)))"
  by (simp add: conversations_of_def example_client_def example_conversation_def
      addMessageToCache_def setConversations_def setMessages_def)

end
